theory Spec2Isabelle
  imports Main "HOL-Library.Word"
begin

unbundle bit_operations_syntax

section \<open>Python values\<close>

text \<open>
  The module \<^verbatim>\<open>cacheback/base.py\<close> is untyped Python: call arguments, cached
  payloads and the items held by the cache backend are arbitrary Python objects. The
  embedding works over the following universe. \<open>PyBytes\<close> is \<^verbatim>\<open>six.binary_type\<close>
  (\<^verbatim>\<open>str\<close> on Python 2, \<^verbatim>\<open>bytes\<close> on Python 3) and \<open>PyText\<close> is
  \<^verbatim>\<open>six.text_type\<close> (\<^verbatim>\<open>unicode\<close> on Python 2, \<^verbatim>\<open>str\<close> on Python 3) with code
  points below 256. \<open>PyObj cls r\<close> is an instance of a user class named \<open>cls\<close> whose
  \<^verbatim>\<open>__repr__\<close> (and \<^verbatim>\<open>__str__\<close>, which defaults to it) returns the string \<open>s\<close>
  when \<open>r = Inr s\<close> and raises the exception \<open>e\<close> when \<open>r = Inl e\<close>.
\<close>

datatype pyexn =
    TypeError
  | ValueError
  | NameError
  | NotImplementedError
  | RuntimeError string
  | OtherError string

datatype pyval =
    PyNone
  | PyBool bool
  | PyInt int
  | PyBytes string
  | PyText string
  | PyTuple "pyval list"
  | PyList "pyval list"
  | PyObj string "pyexn + string"

text \<open>Keyword arguments: the pairs of the dict in its iteration order.\<close>

type_synonym kwargs = "(string \<times> pyval) list"

subsection \<open>\<^verbatim>\<open>repr\<close> and \<^verbatim>\<open>str\<close>\<close>

definition squote :: char where
  "squote = CHR 0x27"

definition dquote :: char where
  "dquote = CHR 0x22"

definition backslash :: char where
  "backslash = CHR 0x5C"

definition hex_digit :: "nat \<Rightarrow> char" where
  "hex_digit n = ''0123456789abcdef'' ! n"

definition hex2 :: "nat \<Rightarrow> string" where
  "hex2 n = [hex_digit (n div 16 mod 16), hex_digit (n mod 16)]"

text \<open>Decimal digits of a non-negative integer, most significant first.\<close>

function py_digits :: "int \<Rightarrow> string" where
  "py_digits n =
     (if n < 10 then [hex_digit (nat n)]
      else py_digits (n div 10) @ [hex_digit (nat (n mod 10))])"
  by pat_completeness auto
termination
  by (relation "measure nat") auto

declare py_digits.simps [simp del]

definition py_int_repr :: "int \<Rightarrow> string" where
  "py_int_repr i = (if i < 0 then CHR ''-'' # py_digits (- i) else py_digits i)"

text \<open>
  The printable code points of the Latin-1 supplement (\<^verbatim>\<open>str.isprintable\<close>): all from
  U+00A1 on but the soft hyphen U+00AD.
\<close>

definition latin1_printable :: "nat \<Rightarrow> bool" where
  "latin1_printable n = (161 \<le> n \<and> n \<noteq> 173)"

text \<open>
  One character inside a quoted literal with quote \<open>q\<close>. Byte strings and Python 2
  unicode strings escape everything outside printable ASCII; Python 3 text
  (\<open>keep = True\<close>) keeps printable code points.
\<close>

definition escape_char :: "bool \<Rightarrow> char \<Rightarrow> char \<Rightarrow> string" where
  "escape_char keep q c =
     (let n = (of_char c :: nat) in
      if c = q \<or> c = backslash then [backslash, c]
      else if n = 9 then [backslash, CHR ''t'']
      else if n = 10 then [backslash, CHR ''n'']
      else if n = 13 then [backslash, CHR ''r'']
      else if n < 32 \<or> n = 127 \<or> (128 \<le> n \<and> \<not> (keep \<and> latin1_printable n))
        then backslash # CHR ''x'' # hex2 n
      else [c])"

text \<open>
  The quoted literal: single quotes, unless the string holds a single quote and no
  double quote.
\<close>

definition py_quote :: "bool \<Rightarrow> string \<Rightarrow> string" where
  "py_quote keep s =
     (let q = (if squote \<in> set s \<and> dquote \<notin> set s then dquote else squote)
      in q # concat (map (escape_char keep q) s) @ [q])"

text \<open>\<^verbatim>\<open>', '.join(rs)\<close>\<close>

fun py_join :: "string list \<Rightarrow> string" where
  "py_join [] = []"
| "py_join [r] = r"
| "py_join (r # rs) = r @ '', '' @ py_join rs"

definition tuple_repr :: "string list \<Rightarrow> string" where
  "tuple_repr rs = ''('' @ (case rs of [r] \<Rightarrow> r @ '','' | _ \<Rightarrow> py_join rs) @ '')''"

definition list_repr :: "string list \<Rightarrow> string" where
  "list_repr rs = ''['' @ py_join rs @ '']''"

text \<open>
  \<^verbatim>\<open>repr(v)\<close>; the flag says whether the interpreter is Python 2. A container asks
  its elements left to right and the first exception propagates.
\<close>

fun py_repr :: "bool \<Rightarrow> pyval \<Rightarrow> pyexn + string"
  and py_reprs :: "bool \<Rightarrow> pyval list \<Rightarrow> pyexn + string list" where
  "py_repr py2 PyNone = Inr ''None''"
| "py_repr py2 (PyBool b) = Inr (if b then ''True'' else ''False'')"
| "py_repr py2 (PyInt i) = Inr (py_int_repr i)"
| "py_repr py2 (PyBytes s) = Inr ((if py2 then [] else ''b'') @ py_quote False s)"
| "py_repr py2 (PyText s) = Inr (if py2 then ''u'' @ py_quote False s else py_quote True s)"
| "py_repr py2 (PyTuple xs) =
     (case py_reprs py2 xs of Inl e \<Rightarrow> Inl e | Inr rs \<Rightarrow> Inr (tuple_repr rs))"
| "py_repr py2 (PyList xs) =
     (case py_reprs py2 xs of Inl e \<Rightarrow> Inl e | Inr rs \<Rightarrow> Inr (list_repr rs))"
| "py_repr py2 (PyObj cls r) = r"
| "py_reprs py2 [] = Inr []"
| "py_reprs py2 (x # xs) =
     (case py_repr py2 x of
        Inl e \<Rightarrow> Inl e
      | Inr r \<Rightarrow> (case py_reprs py2 xs of Inl e \<Rightarrow> Inl e | Inr rs \<Rightarrow> Inr (r # rs)))"

text \<open>\<^verbatim>\<open>bytes(s, 'utf8')\<close> for code points below 256.\<close>

definition utf8 :: "string \<Rightarrow> string" where
  "utf8 s = concat (map (\<lambda>c. let n = (of_char c :: nat) in
                if n < 128 then [c] else [char_of (192 + n div 64), char_of (128 + n mod 64)]) s)"

text \<open>\<^verbatim>\<open>type(v)\<close> as \<^verbatim>\<open>%s\<close> prints it.\<close>

definition py_type :: "bool \<Rightarrow> pyval \<Rightarrow> string" where
  "py_type py2 v =
     (let builtin = (\<lambda>n. (if py2 then ''<type '' else ''<class '') @ [squote] @ n @ [squote] @ ''>'')
      in case v of
        PyNone \<Rightarrow> builtin ''NoneType''
      | PyBool b \<Rightarrow> builtin ''bool''
      | PyInt i \<Rightarrow> builtin ''int''
      | PyBytes s \<Rightarrow> builtin (if py2 then ''str'' else ''bytes'')
      | PyText s \<Rightarrow> builtin (if py2 then ''unicode'' else ''str'')
      | PyTuple xs \<Rightarrow> builtin ''tuple''
      | PyList xs \<Rightarrow> builtin ''list''
      | PyObj cls r \<Rightarrow> ''<class '' @ [squote] @ cls @ [squote] @ ''>'')"

section \<open>\<^verbatim>\<open>hashlib.md5\<close>\<close>

text \<open>
  The MD5 digest (RFC 1321) over 32-bit words: the message is padded to a multiple of
  64 bytes, each block runs 64 steps on the state \<open>(A, B, C, D)\<close>, and the digest is
  the four state words, little endian, in lower-case hexadecimal.
\<close>

type_synonym u32 = "32 word"

definition md5_K :: "u32 list" where
  "md5_K = [
    0xd76aa478, 0xe8c7b756, 0x242070db, 0xc1bdceee, 0xf57c0faf, 0x4787c62a, 0xa8304613, 0xfd469501,
    0x698098d8, 0x8b44f7af, 0xffff5bb1, 0x895cd7be, 0x6b901122, 0xfd987193, 0xa679438e, 0x49b40821,
    0xf61e2562, 0xc040b340, 0x265e5a51, 0xe9b6c7aa, 0xd62f105d, 0x02441453, 0xd8a1e681, 0xe7d3fbc8,
    0x21e1cde6, 0xc33707d6, 0xf4d50d87, 0x455a14ed, 0xa9e3e905, 0xfcefa3f8, 0x676f02d9, 0x8d2a4c8a,
    0xfffa3942, 0x8771f681, 0x6d9d6122, 0xfde5380c, 0xa4beea44, 0x4bdecfa9, 0xf6bb4b60, 0xbebfbc70,
    0x289b7ec6, 0xeaa127fa, 0xd4ef3085, 0x04881d05, 0xd9d4d039, 0xe6db99e5, 0x1fa27cf8, 0xc4ac5665,
    0xf4292244, 0x432aff97, 0xab9423a7, 0xfc93a039, 0x655b59c3, 0x8f0ccc92, 0xffeff47d, 0x85845dd1,
    0x6fa87e4f, 0xfe2ce6e0, 0xa3014314, 0x4e0811a1, 0xf7537e82, 0xbd3af235, 0x2ad7d2bb, 0xeb86d391]"

definition md5_S :: "nat list" where
  "md5_S = [7, 12, 17, 22, 7, 12, 17, 22, 7, 12, 17, 22, 7, 12, 17, 22,
            5, 9, 14, 20, 5, 9, 14, 20, 5, 9, 14, 20, 5, 9, 14, 20,
            4, 11, 16, 23, 4, 11, 16, 23, 4, 11, 16, 23, 4, 11, 16, 23,
            6, 10, 15, 21, 6, 10, 15, 21, 6, 10, 15, 21, 6, 10, 15, 21]"

definition rotl32 :: "u32 \<Rightarrow> nat \<Rightarrow> u32" where
  "rotl32 x n = (push_bit n x) OR (drop_bit (32 - n) x)"

definition md5_step :: "u32 list \<Rightarrow> nat \<Rightarrow> u32 \<times> u32 \<times> u32 \<times> u32 \<Rightarrow> u32 \<times> u32 \<times> u32 \<times> u32" where
  "md5_step M i st = (case st of (A, B, C, D) \<Rightarrow>
     let (F, g) =
           (if i < 16 then ((B AND C) OR (NOT B AND D), i)
            else if i < 32 then ((D AND B) OR (NOT D AND C), (5 * i + 1) mod 16)
            else if i < 48 then (B XOR C XOR D, (3 * i + 5) mod 16)
            else (C XOR (B OR NOT D), (7 * i) mod 16));
         F' = F + A + md5_K ! i + M ! g
     in (D, B + rotl32 F' (md5_S ! i), B, C))"

text \<open>A little-endian word from its bytes, and a list cut into pieces of \<open>n\<close>.\<close>

fun le_word :: "char list \<Rightarrow> u32" where
  "le_word [] = 0"
| "le_word (c # cs) = of_char c + push_bit 8 (le_word cs)"

fun chunks :: "nat \<Rightarrow> 'a list \<Rightarrow> 'a list list" where
  "chunks n [] = []"
| "chunks n (x # xs) = take n (x # xs) # (if n = 0 then [] else chunks n (drop n (x # xs)))"

definition md5_block :: "u32 \<times> u32 \<times> u32 \<times> u32 \<Rightarrow> char list \<Rightarrow> u32 \<times> u32 \<times> u32 \<times> u32" where
  "md5_block st blk = (case st of (a0, b0, c0, d0) \<Rightarrow>
     (case fold (md5_step (map le_word (chunks 4 blk))) [0..<64] st of
        (A, B, C, D) \<Rightarrow> (a0 + A, b0 + B, c0 + C, d0 + D)))"

fun le_bytes :: "nat \<Rightarrow> nat \<Rightarrow> char list" where
  "le_bytes 0 v = []"
| "le_bytes (Suc n) v = char_of (v mod 256) # le_bytes n (v div 256)"

definition md5_pad :: "char list \<Rightarrow> char list" where
  "md5_pad m = m @ [char_of (128 :: nat)]
                 @ replicate ((119 - length m mod 64) mod 64) (char_of (0 :: nat))
                 @ le_bytes 8 (8 * length m)"

definition hex_byte :: "u32 \<Rightarrow> string" where
  "hex_byte b = [hex_digit (unat (drop_bit 4 b AND 15)), hex_digit (unat (b AND 15))]"

definition hex_word_le :: "u32 \<Rightarrow> string" where
  "hex_word_le w = concat (map (\<lambda>k. hex_byte (drop_bit (8 * k) w AND 255)) [0, 1, 2, 3])"

definition md5_hexdigest :: "char list \<Rightarrow> string" where
  "md5_hexdigest m =
     (case fold (\<lambda>blk st. md5_block st blk) (chunks 64 (md5_pad m))
             (0x67452301, 0xefcdab89, 0x98badcfe, 0x10325476) of
        (a, b, c, d) \<Rightarrow> concat (map hex_word_le [a, b, c, d]))"

section \<open>The job, its settings and the world around it\<close>

text \<open>
  The keyword arguments of \<^verbatim>\<open>tasks.refresh_cache.apply_async\<close>: the class path to
  import, the arguments for instantiating the class and those for calling
  \<^verbatim>\<open>refresh\<close>.
\<close>

record task =
  klass_str :: string
  obj_args :: "pyval list"
  obj_kwargs :: kwargs
  call_args :: "pyval list"
  call_kwargs :: kwargs

text \<open>
  What the module reads from outside: the interpreter (\<^verbatim>\<open>six.PY2\<close>), the Django
  setting \<^verbatim>\<open>CACHEBACK_VERIFY_CACHE_WRITE\<close> (\<open>None\<close> when the setting is absent), the
  task queue and the cache backend. \<open>apply_async t opts\<close> is \<open>None\<close> when the
  submission is accepted and \<open>Some e\<close> when it raises \<open>e\<close>. \<open>cache_keeps k v ttl\<close> says
  whether the backend keeps the value \<open>v\<close> that \<^verbatim>\<open>cache.set(k, v, ttl)\<close> hands it: a
  backend can lose a write without a word (a value it cannot store, a ttl under which
  the item expires at once), and then nothing is found under the key.
\<close>

record env =
  PY2 :: bool
  CACHEBACK_VERIFY_CACHE_WRITE :: "bool option"
  apply_async :: "task \<Rightarrow> kwargs \<Rightarrow> pyexn option"
  cache_keeps :: "string \<Rightarrow> pyval \<Rightarrow> int \<Rightarrow> bool"

text \<open>
  A job class: the class attributes of \<^verbatim>\<open>Job\<close>, its \<^verbatim>\<open>class_path\<close>, and the one
  method a subclass has to supply, \<^verbatim>\<open>fetch\<close>, which returns the data or raises, after
  the expensive work has taken \<open>fetch_seconds\<close> seconds.
\<close>

record job =
  class_path :: string
  lifetime :: int
  refresh_timeout :: int
  cache_ttl :: int
  fetch_on_miss :: bool
  fetch_on_stale_threshold :: "int option"
  task_options :: kwargs
  fetch :: "pyval list \<Rightarrow> kwargs \<Rightarrow> pyexn + pyval"
  fetch_seconds :: "pyval list \<Rightarrow> kwargs \<Rightarrow> nat"

definition MEMCACHE_MAX_EXPIRATION :: int where
  "MEMCACHE_MAX_EXPIRATION = 2592000"

text \<open>The attributes as the base class sets them; \<^verbatim>\<open>fetch\<close> is not implemented there.\<close>

definition Job :: "string \<Rightarrow> job" where
  "Job path = \<lparr> class_path = path, lifetime = 600, refresh_timeout = 60,
                cache_ttl = MEMCACHE_MAX_EXPIRATION, fetch_on_miss = True,
                fetch_on_stale_threshold = None, task_options = [],
                fetch = (\<lambda>args kwargs. Inl NotImplementedError),
                fetch_seconds = (\<lambda>args kwargs. 0) \<rparr>"

section \<open>Cache keys\<close>

text \<open>
  \<^verbatim>\<open>to_bytestring(value)\<close>. The first branch names a variable \<^verbatim>\<open>string\<close> that does
  not exist, so a text value raises \<^verbatim>\<open>NameError\<close>. A value that is neither text nor
  bytes goes through \<^verbatim>\<open>str(value)\<close>, which for the remaining values is their
  \<^verbatim>\<open>repr\<close>; Python 3 then encodes the text as UTF-8.
\<close>

definition to_bytestring :: "bool \<Rightarrow> pyval \<Rightarrow> pyexn + string" where
  "to_bytestring py2 v =
     (case v of
        PyText s \<Rightarrow> Inl NameError
      | PyBytes s \<Rightarrow> Inr s
      | _ \<Rightarrow> (if py2 then py_repr py2 v
              else (case py_repr py2 v of Inl e \<Rightarrow> Inl e | Inr s \<Rightarrow> Inr (utf8 s))))"

text \<open>\<^verbatim>\<open>Job.hash(value)\<close>\<close>

definition hash :: "env \<Rightarrow> pyval \<Rightarrow> pyexn + string" where
  "hash E v = (case to_bytestring (PY2 E) v of Inl e \<Rightarrow> Inl e | Inr b \<Rightarrow> Inr (md5_hexdigest b))"

text \<open>A string literal of the source: \<^verbatim>\<open>str\<close>, which is bytes on Python 2 and text on 3.\<close>

definition py_literal :: "env \<Rightarrow> string \<Rightarrow> pyval" where
  "py_literal E s = (if PY2 E then PyBytes s else PyText s)"

definition unhashable_message :: string where
  "unhashable_message =
     ''Unable to generate cache key due to unhashable'' @
     ''args or kwargs - you need to implement your own'' @
     ''key generation method to avoid this problem''"

text \<open>
  \<^verbatim>\<open>Job.key(*args, **kwargs)\<close>. The hashes are computed left to right inside the
  \<^verbatim>\<open>try\<close>; a \<^verbatim>\<open>TypeError\<close> among them becomes the \<^verbatim>\<open>RuntimeError\<close>, any other
  exception propagates.
\<close>

definition key :: "env \<Rightarrow> job \<Rightarrow> pyval list \<Rightarrow> kwargs \<Rightarrow> pyexn + string" where
  "key E J args kwargs =
     (if args = [] \<and> kwargs = [] then Inr (class_path J)
      else
        (case
           (if args \<noteq> [] \<and> kwargs = [] then
              (case hash E (PyTuple args) of
                 Inl e \<Rightarrow> Inl e
               | Inr h \<Rightarrow> Inr (class_path J @ '':'' @ h))
            else
              (case hash E (PyTuple args) of
                 Inl e \<Rightarrow> Inl e
               | Inr h1 \<Rightarrow>
                  (case hash E (PyTuple (map (\<lambda>kv. py_literal E (fst kv)) kwargs)) of
                     Inl e \<Rightarrow> Inl e
                   | Inr h2 \<Rightarrow>
                      (case hash E (PyTuple (map snd kwargs)) of
                         Inl e \<Rightarrow> Inl e
                       | Inr h3 \<Rightarrow>
                          Inr (class_path J @ '':'' @ h1 @ '':'' @ h2 @ '':'' @ h3)))))
         of
           Inl TypeError \<Rightarrow> Inl (RuntimeError unhashable_message)
         | r \<Rightarrow> r))"

section \<open>The cache backend, the clock and the log\<close>

text \<open>
  The calls of \<^verbatim>\<open>logger.debug\<close> and \<^verbatim>\<open>logger.error\<close>, by the branch that makes
  them; the debug records carry the cache key, the hit record also the status it
  prints.
\<close>

datatype logrec =
    Debug_miss_sync string
  | Debug_miss_async string
  | Debug_stale_sync string
  | Debug_stale_async string
  | Debug_hit string pyval
  | Error_async_failed
  | Error_sync_failed pyexn

text \<open>
  The state outside the job object: the items of the Django cache by key, the clock
  that \<^verbatim>\<open>time.time()\<close> reads (whole seconds where the source has floating-point
  seconds; it advances while \<^verbatim>\<open>fetch\<close> runs and stands still otherwise), the calls
  made so far to \<^verbatim>\<open>apply_async\<close> and to \<^verbatim>\<open>fetch\<close>, and the log.
\<close>

record world =
  store :: "string \<Rightarrow> pyval option"
  clock :: int
  async_calls :: "(task \<times> kwargs) list"
  fetch_calls :: "(pyval list \<times> kwargs) list"
  logged :: "logrec list"

text \<open>
  \<^verbatim>\<open>cache.get(key)\<close>, \<^verbatim>\<open>cache.get(key, default)\<close>, \<^verbatim>\<open>cache.set(key, value, ttl)\<close> and
  \<^verbatim>\<open>cache.delete(key)\<close>. A write that the backend does not keep leaves the key
  without an item. Eviction of a kept item at a later time is outside the model.
\<close>

definition cache_get :: "world \<Rightarrow> string \<Rightarrow> pyval" where
  "cache_get w k = (case store w k of None \<Rightarrow> PyNone | Some v \<Rightarrow> v)"

definition cache_get_default :: "world \<Rightarrow> string \<Rightarrow> pyval \<Rightarrow> pyval" where
  "cache_get_default w k d = (case store w k of None \<Rightarrow> d | Some v \<Rightarrow> v)"

definition cache_put :: "env \<Rightarrow> world \<Rightarrow> string \<Rightarrow> pyval \<Rightarrow> int \<Rightarrow> world" where
  "cache_put E w k v ttl =
     (if cache_keeps E k v ttl then w\<lparr>store := (store w)(k \<mapsto> v)\<rparr>
      else w\<lparr>store := (store w)(k := None)\<rparr>)"

definition cache_delete :: "world \<Rightarrow> string \<Rightarrow> world" where
  "cache_delete w k = w\<lparr>store := (store w)(k := None)\<rparr>"

definition time_time :: "world \<Rightarrow> int" where
  "time_time w = clock w"

definition logger :: "logrec \<Rightarrow> world \<Rightarrow> world" where
  "logger r w = w\<lparr>logged := logged w @ [r]\<rparr>"

subsection \<open>Tuple unpacking and arithmetic on stored values\<close>

text \<open>
  The elements an assignment \<^verbatim>\<open>a, b = item\<close> iterates over; \<open>None\<close> when the value is
  not iterable. Iterating bytes gives one-byte strings on Python 2 and integers on 3.
\<close>

definition py_iter :: "bool \<Rightarrow> pyval \<Rightarrow> pyval list option" where
  "py_iter py2 v =
     (case v of
        PyTuple xs \<Rightarrow> Some xs
      | PyList xs \<Rightarrow> Some xs
      | PyText s \<Rightarrow> Some (map (\<lambda>c. PyText [c]) s)
      | PyBytes s \<Rightarrow> Some (map (\<lambda>c. if py2 then PyBytes [c] else PyInt (of_char c)) s)
      | _ \<Rightarrow> None)"

text \<open>
  Unpacking into two and into three names: \<^verbatim>\<open>TypeError\<close> for a value that is not
  iterable, \<^verbatim>\<open>ValueError\<close> for a wrong number of elements.
\<close>

definition unpack2 :: "bool \<Rightarrow> pyval \<Rightarrow> pyexn + (pyval \<times> pyval)" where
  "unpack2 py2 v =
     (case py_iter py2 v of
        None \<Rightarrow> Inl TypeError
      | Some [a, b] \<Rightarrow> Inr (a, b)
      | Some _ \<Rightarrow> Inl ValueError)"

definition unpack3 :: "bool \<Rightarrow> pyval \<Rightarrow> pyexn + (pyval \<times> pyval \<times> pyval)" where
  "unpack3 py2 v =
     (case py_iter py2 v of
        None \<Rightarrow> Inl TypeError
      | Some [a, b, c] \<Rightarrow> Inr (a, b, c)
      | Some _ \<Rightarrow> Inl ValueError)"

text \<open>\<^verbatim>\<open>time.time() - expiry\<close>: a number minus a stored value.\<close>

definition py_number :: "pyval \<Rightarrow> int option" where
  "py_number v =
     (case v of
        PyInt i \<Rightarrow> Some i
      | PyBool b \<Rightarrow> Some (if b then 1 else 0)
      | _ \<Rightarrow> None)"

definition time_minus :: "int \<Rightarrow> pyval \<Rightarrow> pyexn + int" where
  "time_minus t v = (case py_number v of None \<Rightarrow> Inl TypeError | Some e \<Rightarrow> Inr (t - e))"

section \<open>The methods of \<^verbatim>\<open>Job\<close>\<close>

subsection \<open>Helper methods and hooks\<close>

definition prepare_args :: "pyval list \<Rightarrow> pyval list" where
  "prepare_args args = args"

definition prepare_kwargs :: "kwargs \<Rightarrow> kwargs" where
  "prepare_kwargs kwargs = kwargs"

definition get_constructor_args :: "pyval list" where
  "get_constructor_args = []"

definition get_constructor_kwargs :: kwargs where
  "get_constructor_kwargs = []"

definition empty :: "job \<Rightarrow> pyval" where
  "empty J = PyNone"

definition expiry :: "job \<Rightarrow> pyval list \<Rightarrow> kwargs \<Rightarrow> world \<Rightarrow> pyval" where
  "expiry J args kwargs w = PyInt (time_time w + lifetime J)"

definition timeout :: "job \<Rightarrow> pyval list \<Rightarrow> kwargs \<Rightarrow> world \<Rightarrow> pyval" where
  "timeout J args kwargs w = PyInt (time_time w + refresh_timeout J)"

definition should_missing_item_be_fetched_synchronously :: "job \<Rightarrow> pyval list \<Rightarrow> kwargs \<Rightarrow> bool" where
  "should_missing_item_be_fetched_synchronously J args kwargs = fetch_on_miss J"

definition should_stale_item_be_fetched_synchronously :: "job \<Rightarrow> int \<Rightarrow> pyval list \<Rightarrow> kwargs \<Rightarrow> bool" where
  "should_stale_item_be_fetched_synchronously J delta args kwargs =
     (case fetch_on_stale_threshold J of
        None \<Rightarrow> False
      | Some threshold \<Rightarrow> delta > threshold - lifetime J)"

definition got_miss :: "pyval \<Rightarrow> bool \<Rightarrow> pyval list \<Rightarrow> kwargs \<Rightarrow> pyval" where
  "got_miss fetched async raw_args raw_kwargs = fetched"

definition got_hit :: "pyval \<Rightarrow> pyval \<Rightarrow> pyval list \<Rightarrow> kwargs \<Rightarrow> pyval" where
  "got_hit fetched status raw_args raw_kwargs = fetched"

definition got_stale :: "pyval \<Rightarrow> bool \<Rightarrow> pyval list \<Rightarrow> kwargs \<Rightarrow> pyval" where
  "got_stale fetched async raw_args raw_kwargs = fetched"

subsection \<open>Writing and refreshing\<close>

text \<open>
  \<^verbatim>\<open>cache_set(self, key, expiry, status, data)\<close> stores the tuple
  \<^verbatim>\<open>(expiry, status, data)\<close> and, unless the setting turns it off, reads the key back
  and raises when data that is not \<^verbatim>\<open>None\<close> came back as \<^verbatim>\<open>None\<close>. A method that can
  raise returns the world it leaves together with the exception or the result.
\<close>

definition cache_set ::
  "env \<Rightarrow> job \<Rightarrow> string \<Rightarrow> pyval \<Rightarrow> pyval \<Rightarrow> pyval \<Rightarrow> world \<Rightarrow> world \<times> (pyexn + unit)" where
  "cache_set E J k expiry_v status data w =
     (let w1 = cache_put E w k (PyTuple [expiry_v, status, data]) (cache_ttl J) in
      if (case CACHEBACK_VERIFY_CACHE_WRITE E of None \<Rightarrow> True | Some b \<Rightarrow> b) then
        (case unpack3 (PY2 E) (cache_get_default w1 k (PyTuple [PyNone, PyNone, PyNone])) of
           Inl e \<Rightarrow> (w1, Inl e)
         | Inr (u1, u2, cached_data) \<Rightarrow>
            if data \<noteq> PyNone \<and> cached_data = PyNone then
              (w1, Inl (RuntimeError
                 (''Unable to save data of type '' @ py_type (PY2 E) data @ '' to cache'')))
            else (w1, Inr ()))
      else (w1, Inr ()))"

text \<open>
  \<^verbatim>\<open>refresh(self, *args, **kwargs)\<close>: fetch synchronously and populate the cache. The
  clock has moved on by the time \<^verbatim>\<open>fetch\<close> returns or raises, and \<^verbatim>\<open>expiry\<close> reads it
  after that.
\<close>

definition refresh ::
  "env \<Rightarrow> job \<Rightarrow> pyval list \<Rightarrow> kwargs \<Rightarrow> world \<Rightarrow> world \<times> (pyexn + pyval)" where
  "refresh E J args kwargs w =
     (let w1 = w\<lparr>fetch_calls := fetch_calls w @ [(args, kwargs)],
                 clock := clock w + int (fetch_seconds J args kwargs)\<rparr> in
      case fetch J args kwargs of
        Inl e \<Rightarrow> (w1, Inl e)
      | Inr result \<Rightarrow>
         (case key E J args kwargs of
            Inl e \<Rightarrow> (w1, Inl e)
          | Inr k \<Rightarrow>
             (case cache_set E J k (expiry J args kwargs w1) (py_literal E ''FRESH'') result w1 of
                (w2, Inl e) \<Rightarrow> (w2, Inl e)
              | (w2, Inr u) \<Rightarrow> (w2, Inr result))))"

text \<open>
  \<^verbatim>\<open>async_refresh(self, *args, **kwargs)\<close>: submit the task; when the submission
  raises, log it and run \<^verbatim>\<open>refresh\<close> here, returning its result; when that raises
  too, log it and fall off the end (returning \<^verbatim>\<open>None\<close>).
\<close>

definition async_refresh ::
  "env \<Rightarrow> job \<Rightarrow> pyval list \<Rightarrow> kwargs \<Rightarrow> world \<Rightarrow> world \<times> (pyexn + pyval)" where
  "async_refresh E J args kwargs w =
     (let t = \<lparr> klass_str = class_path J, obj_args = get_constructor_args,
                 obj_kwargs = get_constructor_kwargs, call_args = args, call_kwargs = kwargs \<rparr>;
          w1 = w\<lparr>async_calls := async_calls w @ [(t, task_options J)]\<rparr>
      in case apply_async E t (task_options J) of
           None \<Rightarrow> (w1, Inr PyNone)
         | Some e \<Rightarrow>
            (case refresh E J args kwargs (logger Error_async_failed w1) of
               (w2, Inl e2) \<Rightarrow> (logger (Error_sync_failed e2) w2, Inr PyNone)
             | (w2, Inr result) \<Rightarrow> (w2, Inr result)))"

subsection \<open>The main API\<close>

text \<open>\<^verbatim>\<open>get(self, *raw_args, **raw_kwargs)\<close>\<close>

definition get ::
  "env \<Rightarrow> job \<Rightarrow> pyval list \<Rightarrow> kwargs \<Rightarrow> world \<Rightarrow> world \<times> (pyexn + pyval)" where
  "get E J raw_args raw_kwargs w =
     (let args = prepare_args raw_args; kwargs = prepare_kwargs raw_kwargs in
      case key E J args kwargs of
        Inl e \<Rightarrow> (w, Inl e)
      | Inr k \<Rightarrow>
         (let item = cache_get w k in
          if item = PyNone then
            (if should_missing_item_be_fetched_synchronously J args kwargs then
               (case refresh E J args kwargs (logger (Debug_miss_sync k) w) of
                  (w1, Inl e) \<Rightarrow> (w1, Inl e)
                | (w1, Inr fetched) \<Rightarrow> (w1, Inr (got_miss fetched False raw_args raw_kwargs)))
             else
               (let w1 = logger (Debug_miss_async k) w;
                    empty_v = empty J
                in case cache_set E J k (timeout J args kwargs w1) empty_v (py_literal E ''QUEUED'') w1 of
                     (w2, Inl e) \<Rightarrow> (w2, Inl e)
                   | (w2, Inr u) \<Rightarrow>
                      (case async_refresh E J args kwargs w2 of
                         (w3, Inl e) \<Rightarrow> (w3, Inl e)
                       | (w3, Inr r) \<Rightarrow> (w3, Inr (got_miss empty_v True raw_args raw_kwargs)))))
          else
            (case unpack3 (PY2 E) item of
               Inl e \<Rightarrow> (w, Inl e)
             | Inr (expiry_v, data, status) \<Rightarrow>
                (case time_minus (time_time w) expiry_v of
                   Inl e \<Rightarrow> (w, Inl e)
                 | Inr delta \<Rightarrow>
                    if delta > 0 then
                      (if should_stale_item_be_fetched_synchronously J delta args kwargs then
                         (case refresh E J args kwargs (logger (Debug_stale_sync k) w) of
                            (w1, Inl e) \<Rightarrow> (w1, Inl e)
                          | (w1, Inr fetched) \<Rightarrow>
                             (w1, Inr (got_stale fetched False raw_args raw_kwargs)))
                       else
                         (let w1 = logger (Debug_stale_async k) w;
                              timeout_v = timeout J args kwargs w1
                          in case cache_set E J k timeout_v data (py_literal E ''QUEUED'') w1 of
                               (w2, Inl e) \<Rightarrow> (w2, Inl e)
                             | (w2, Inr u) \<Rightarrow>
                                (case async_refresh E J args kwargs w2 of
                                   (w3, Inl e) \<Rightarrow> (w3, Inl e)
                                 | (w3, Inr r) \<Rightarrow>
                                    (w3, Inr (got_stale data True raw_args raw_kwargs)))))
                    else
                      (logger (Debug_hit k status) w,
                       Inr (got_hit data status raw_args raw_kwargs))))))"

text \<open>\<^verbatim>\<open>invalidate(self, *raw_args, **raw_kwargs)\<close>\<close>

definition invalidate ::
  "env \<Rightarrow> job \<Rightarrow> pyval list \<Rightarrow> kwargs \<Rightarrow> world \<Rightarrow> world \<times> (pyexn + unit)" where
  "invalidate E J raw_args raw_kwargs w =
     (let args = prepare_args raw_args; kwargs = prepare_kwargs raw_kwargs in
      case key E J args kwargs of
        Inl e \<Rightarrow> (w, Inl e)
      | Inr k \<Rightarrow>
         (let item = cache_get w k in
          if item \<noteq> PyNone then
            (case unpack2 (PY2 E) item of
               Inl e \<Rightarrow> (w, Inl e)
             | Inr (expiry_v, data) \<Rightarrow>
                (case cache_set E J k (timeout J args kwargs w) data (py_literal E ''QUEUED'') w of
                   (w1, Inl e) \<Rightarrow> (w1, Inl e)
                 | (w1, Inr u) \<Rightarrow>
                    (case async_refresh E J args kwargs w1 of
                       (w2, Inl e) \<Rightarrow> (w2, Inl e)
                     | (w2, Inr r) \<Rightarrow> (w2, Inr ()))))
          else (w, Inr ())))"

text \<open>\<^verbatim>\<open>delete(self, *raw_args, **raw_kwargs)\<close>\<close>

definition delete ::
  "env \<Rightarrow> job \<Rightarrow> pyval list \<Rightarrow> kwargs \<Rightarrow> world \<Rightarrow> world \<times> (pyexn + unit)" where
  "delete E J raw_args raw_kwargs w =
     (let args = prepare_args raw_args; kwargs = prepare_kwargs raw_kwargs in
      case key E J args kwargs of
        Inl e \<Rightarrow> (w, Inl e)
      | Inr k \<Rightarrow>
         (let item = cache_get w k in
          if item \<noteq> PyNone then (cache_delete w k, Inr ()) else (w, Inr ())))"

section \<open>Notions the properties are stated with\<close>

text \<open>
  The exception that rendering a value raises, if any: \<^verbatim>\<open>str\<close> asks the objects in
  it in order, at any depth, and the first \<^verbatim>\<open>__repr__\<close> that raises decides.
\<close>

fun first_raise :: "pyval \<Rightarrow> pyexn option" and first_raises :: "pyval list \<Rightarrow> pyexn option" where
  "first_raise PyNone = None"
| "first_raise (PyBool b) = None"
| "first_raise (PyInt i) = None"
| "first_raise (PyBytes s) = None"
| "first_raise (PyText s) = None"
| "first_raise (PyTuple xs) = first_raises xs"
| "first_raise (PyList xs) = first_raises xs"
| "first_raise (PyObj cls r) = (case r of Inl e \<Rightarrow> Some e | Inr s \<Rightarrow> None)"
| "first_raises [] = None"
| "first_raises (x # xs) = (case first_raise x of Some e \<Rightarrow> Some e | None \<Rightarrow> first_raises xs)"

text \<open>
  A complete cache entry, with all three fields set: a tuple of exactly three
  components, in the order of \<^verbatim>\<open>cache_set\<close>, whose expiry is a timestamp and whose
  status is one of the two status strings. The data may be any value, the empty
  placeholder \<^verbatim>\<open>None\<close> included.
\<close>

definition is_status :: "pyval \<Rightarrow> bool" where
  "is_status s = (s = PyText ''FRESH'' \<or> s = PyText ''QUEUED''
                  \<or> s = PyBytes ''FRESH'' \<or> s = PyBytes ''QUEUED'')"

fun is_entry :: "pyval \<Rightarrow> bool" where
  "is_entry (PyTuple [PyInt e, status, data]) = is_status status"
| "is_entry v = False"

text \<open>The task that \<^verbatim>\<open>async_refresh\<close> submits for a call with the given arguments.\<close>

definition refresh_task :: "job \<Rightarrow> pyval list \<Rightarrow> kwargs \<Rightarrow> task" where
  "refresh_task J args kwargs =
     \<lparr> klass_str = class_path J, obj_args = get_constructor_args,
       obj_kwargs = get_constructor_kwargs, call_args = args, call_kwargs = kwargs \<rparr>"

subsection \<open>A concrete job and concrete worlds\<close>

text \<open>
  Python 3 with default settings and a cache backend that keeps what it is given for
  a positive ttl and nothing otherwise, once with a task queue that accepts every
  submission and once with a broker that refuses the connection.
\<close>

definition env_accepting :: env where
  "env_accepting = \<lparr> PY2 = False, CACHEBACK_VERIFY_CACHE_WRITE = None,
                      apply_async = (\<lambda>t opts. None),
                      cache_keeps = (\<lambda>k v ttl. 0 < ttl) \<rparr>"

definition env_refusing :: env where
  "env_refusing = \<lparr> PY2 = False, CACHEBACK_VERIFY_CACHE_WRITE = None,
                     apply_async = (\<lambda>t opts. Some (OtherError ''Connection refused'')),
                     cache_keeps = (\<lambda>k v ttl. 0 < ttl) \<rparr>"

text \<open>
  A subclass with the default attributes (lifetime 600, refresh timeout 60, fetch on
  miss, no stale threshold) whose \<^verbatim>\<open>fetch\<close> returns the value \<open>V\<close> at once; the
  same class with \<^verbatim>\<open>fetch_on_miss = False\<close>; and the same class with a \<^verbatim>\<open>fetch\<close> that
  takes five seconds.
\<close>

definition V :: pyval where
  "V = PyText ''V''"

definition job_V :: job where
  "job_V = (Job ''app.jobs.J'')\<lparr>fetch := (\<lambda>args kwargs. Inr V)\<rparr>"

definition job_V_lazy :: job where
  "job_V_lazy = job_V\<lparr>fetch_on_miss := False\<rparr>"


text \<open>
  The base class itself with \<^verbatim>\<open>fetch_on_miss = False\<close>: its \<^verbatim>\<open>fetch\<close> raises
  \<^verbatim>\<open>NotImplementedError\<close>.
\<close>

definition job_abstract_lazy :: job where
  "job_abstract_lazy = (Job ''app.jobs.J'')\<lparr>fetch_on_miss := False\<rparr>"

text \<open>An empty cache at time 0, and a cache holding one item under a key at time \<open>t\<close>.\<close>

definition world_0 :: world where
  "world_0 = \<lparr> store = (\<lambda>k. None), clock = 0, async_calls = [], fetch_calls = [], logged = [] \<rparr>"

definition world_with :: "string \<Rightarrow> pyval \<Rightarrow> int \<Rightarrow> world" where
  "world_with k item t = world_0\<lparr>store := [k \<mapsto> item], clock := t\<rparr>"

text \<open>
  The scenario of a first call at time 0 and a second call for the same argument at
  time 700: the cache key of the call, the world after the first call and the world
  after the second.
\<close>

definition scenario_key :: string where
  "scenario_key = ''app.jobs.J:cfea63879ac12dfbea87b362984813f1''"

definition scenario_w1 :: world where
  "scenario_w1 = fst (get env_accepting job_V [PyText ''a''] [] world_0)"

definition scenario_w2 :: world where
  "scenario_w2 = fst (get env_accepting job_V [PyText ''a''] [] (scenario_w1\<lparr>clock := 700\<rparr>))"

section \<open>Lemmas about the methods\<close>

subsection \<open>Keys\<close>

lemma py_repr_cases:
  "(first_raise v = None \<longrightarrow> (\<exists>s. py_repr py2 v = Inr s)) \<and>
   (\<forall>e. first_raise v = Some e \<longrightarrow> py_repr py2 v = Inl e)"
  "(first_raises vs = None \<longrightarrow> (\<exists>ss. py_reprs py2 vs = Inr ss)) \<and>
   (\<forall>e. first_raises vs = Some e \<longrightarrow> py_reprs py2 vs = Inl e)"
  by (induction py2 v and py2 vs rule: py_repr_py_reprs.induct)
     (auto split: sum.splits option.splits)

lemma hash_tuple_cases:
  "(first_raises vs = None \<longrightarrow> (\<exists>h. hash E (PyTuple vs) = Inr h)) \<and>
   (\<forall>e. first_raises vs = Some e \<longrightarrow> hash E (PyTuple vs) = Inl e)"
  using py_repr_cases(2) [of vs "PY2 E"]
  by (cases "PY2 E") (auto simp add: hash_def to_bytestring_def split: sum.splits)

lemma first_raises_append:
  "first_raises (xs @ ys) = (case first_raises xs of Some e \<Rightarrow> Some e | None \<Rightarrow> first_raises ys)"
  by (induction xs) (auto split: option.splits)

lemma first_raises_literals: "first_raises (map (\<lambda>kv. py_literal E (fst kv)) kwargs) = None"
  by (induction kwargs) (auto simp add: py_literal_def)

text \<open>The digest on test vectors of RFC 1321, one of them two blocks long.\<close>

lemma md5_hexdigest_empty: "md5_hexdigest [] = ''d41d8cd98f00b204e9800998ecf8427e''"
  by code_simp

lemma md5_hexdigest_abc: "md5_hexdigest ''abc'' = ''900150983cd24fb0d6963f7d28e17f72''"
  by code_simp

lemma md5_hexdigest_digits:
  "md5_hexdigest
     ''12345678901234567890123456789012345678901234567890123456789012345678901234567890''
   = ''57edf4a22be3c955ac49da2e2107b67a''"
  by code_simp

lemma hex_word_le_length: "length (hex_word_le w) = 8"
  by (simp add: hex_word_le_def hex_byte_def)

lemma md5_hexdigest_length: "length (md5_hexdigest m) = 32"
  by (simp add: md5_hexdigest_def hex_word_le_length split: prod.splits)

lemma hash_length: "hash E v = Inr h \<Longrightarrow> length h = 32"
  by (auto simp add: hash_def md5_hexdigest_length split: sum.splits)

lemma key_no_arguments: "key E J [] [] = Inr (class_path J)"
  by (simp add: key_def)

lemma key_kwargs:
  assumes "kwargs \<noteq> []" and "hash E (PyTuple args) = Inr h1"
    and "hash E (PyTuple (map (\<lambda>kv. py_literal E (fst kv)) kwargs)) = Inr h2"
    and "hash E (PyTuple (map snd kwargs)) = Inr h3"
  shows "key E J args kwargs = Inr (class_path J @ '':'' @ h1 @ '':'' @ h2 @ '':'' @ h3)"
  using assms by (simp add: key_def)

lemma key_kwargs_shape:
  assumes "kwargs \<noteq> []" and "key E J args kwargs = Inr s"
  shows "\<exists>h1 h2 h3. hash E (PyTuple args) = Inr h1
           \<and> hash E (PyTuple (map (\<lambda>kv. py_literal E (fst kv)) kwargs)) = Inr h2
           \<and> hash E (PyTuple (map snd kwargs)) = Inr h3
           \<and> s = class_path J @ '':'' @ h1 @ '':'' @ h2 @ '':'' @ h3"
  using assms by (auto simp add: key_def split: sum.splits pyexn.splits)

text \<open>
  What \<^verbatim>\<open>key\<close> does, by the first exception that rendering the positional arguments
  and then the keyword values raises.
\<close>

lemma key_renders:
  "first_raises (args @ map snd kwargs) = None \<Longrightarrow> \<exists>s. key E J args kwargs = Inr s"
  using hash_tuple_cases [of args E] hash_tuple_cases [of "map snd kwargs" E]
    hash_tuple_cases [of "map (\<lambda>kv. py_literal E (fst kv)) kwargs" E]
    first_raises_literals [of E kwargs]
  by (cases "args = []"; cases "kwargs = []")
     (auto simp add: key_def first_raises_append split: sum.splits pyexn.splits option.splits)

lemma key_type_error:
  "first_raises (args @ map snd kwargs) = Some TypeError \<Longrightarrow>
   key E J args kwargs = Inl (RuntimeError unhashable_message)"
  using hash_tuple_cases [of args E] hash_tuple_cases [of "map snd kwargs" E]
    hash_tuple_cases [of "map (\<lambda>kv. py_literal E (fst kv)) kwargs" E]
    first_raises_literals [of E kwargs]
  by (cases "args = []"; cases "kwargs = []")
     (auto simp add: key_def first_raises_append split: sum.splits pyexn.splits option.splits)

lemma key_other_error:
  "first_raises (args @ map snd kwargs) = Some e \<Longrightarrow> e \<noteq> TypeError \<Longrightarrow>
   key E J args kwargs = Inl e"
  using hash_tuple_cases [of args E] hash_tuple_cases [of "map snd kwargs" E]
    hash_tuple_cases [of "map (\<lambda>kv. py_literal E (fst kv)) kwargs" E]
    first_raises_literals [of E kwargs]
  by (cases "args = []"; cases "kwargs = []")
     (auto simp add: key_def first_raises_append split: sum.splits pyexn.splits option.splits)

lemma digest_keys_ab:
  "hash env_accepting (PyTuple [PyText ''a'', PyText ''b'']) = Inr ''aca14e654bc28ce1c1e8131004244d64''"
  by code_simp

lemma digest_keys_ba:
  "hash env_accepting (PyTuple [PyText ''b'', PyText ''a'']) = Inr ''82ca240c4a3f5579a5c33404af58e41b''"
  by code_simp

lemma key_of_a:
  "key env_accepting job_V [PyText ''a''] [] = Inr ''app.jobs.J:cfea63879ac12dfbea87b362984813f1''"
  by code_simp

lemma key_of_list:
  "key env_accepting job_V [PyList [PyInt 1, PyInt 2]] []
     = Inr ''app.jobs.J:94a14176f272107846956cd04ab85cc8''"
  by code_simp

subsection \<open>Writing, refreshing, dispatching\<close>

lemma cache_set_kept:
  "cache_keeps E k (PyTuple [e, s, d]) (cache_ttl J) \<Longrightarrow>
   cache_set E J k e s d w = (w\<lparr>store := (store w)(k \<mapsto> PyTuple [e, s, d])\<rparr>, Inr ())"
  by (simp add: cache_set_def cache_put_def cache_get_default_def unpack3_def py_iter_def Let_def
           split: option.splits)

text \<open>
  A write that the backend loses is found out by the read-back, unless the data is
  \<^verbatim>\<open>None\<close> or the verification is switched off.
\<close>

lemma cache_set_lost:
  assumes "\<not> cache_keeps E k (PyTuple [e, s, d]) (cache_ttl J)"
    and "d \<noteq> PyNone" and "CACHEBACK_VERIFY_CACHE_WRITE E \<noteq> Some False"
  shows "cache_set E J k e s d w =
     (w\<lparr>store := (store w)(k := None)\<rparr>,
      Inl (RuntimeError (''Unable to save data of type '' @ py_type (PY2 E) d @ '' to cache'')))"
  using assms
  by (auto simp add: cache_set_def cache_put_def cache_get_default_def unpack3_def py_iter_def
        Let_def split: option.splits)

lemma cache_set_world:
  "fst (cache_set E J k e s d w) = cache_put E w k (PyTuple [e, s, d]) (cache_ttl J)"
  by (simp add: cache_set_def Let_def split: sum.splits prod.splits)

lemma cache_put_frame:
  "fetch_calls (cache_put E w k v ttl) = fetch_calls w"
  "async_calls (cache_put E w k v ttl) = async_calls w"
  "logged (cache_put E w k v ttl) = logged w"
  "clock (cache_put E w k v ttl) = clock w"
  by (simp_all add: cache_put_def)

lemma cache_set_frame:
  assumes "cache_set E J k e s d w = (w', r)"
  shows "fetch_calls w' = fetch_calls w" and "async_calls w' = async_calls w"
    and "logged w' = logged w" and "clock w' = clock w"
  using cache_set_world [of E J k e s d w] assms by (simp_all add: cache_put_frame)

lemma refresh_fetch_raises:
  "fetch J args kwargs = Inl e \<Longrightarrow>
   refresh E J args kwargs w =
     (w\<lparr>fetch_calls := fetch_calls w @ [(args, kwargs)],
        clock := clock w + int (fetch_seconds J args kwargs)\<rparr>, Inl e)"
  by (simp add: refresh_def)

lemma refresh_key_raises:
  "fetch J args kwargs = Inr v \<Longrightarrow> key E J args kwargs = Inl e \<Longrightarrow>
   refresh E J args kwargs w =
     (w\<lparr>fetch_calls := fetch_calls w @ [(args, kwargs)],
        clock := clock w + int (fetch_seconds J args kwargs)\<rparr>, Inl e)"
  by (simp add: refresh_def)

lemma refresh_result:
  assumes "fetch J args kwargs = Inr v" and "key E J args kwargs = Inr k"
    and "cache_keeps E k
           (PyTuple [PyInt (clock w + int (fetch_seconds J args kwargs) + lifetime J),
                     py_literal E ''FRESH'', v]) (cache_ttl J)"
  shows "refresh E J args kwargs w =
     (w\<lparr>fetch_calls := fetch_calls w @ [(args, kwargs)],
        clock := clock w + int (fetch_seconds J args kwargs),
        store := (store w)(k \<mapsto>
          PyTuple [PyInt (clock w + int (fetch_seconds J args kwargs) + lifetime J),
                   py_literal E ''FRESH'', v])\<rparr>,
      Inr v)"
  using assms by (simp add: refresh_def cache_set_kept expiry_def time_time_def)

lemma refresh_fetch_calls:
  "fetch_calls (fst (refresh E J args kwargs w)) = fetch_calls w @ [(args, kwargs)]"
  by (auto simp add: refresh_def Let_def split: sum.splits prod.splits dest: cache_set_frame(1))


lemma async_refresh_accepted:
  "apply_async E (refresh_task J args kwargs) (task_options J) = None \<Longrightarrow>
   async_refresh E J args kwargs w =
     (w\<lparr>async_calls := async_calls w @ [(refresh_task J args kwargs, task_options J)]\<rparr>, Inr PyNone)"
  by (simp add: async_refresh_def refresh_task_def)

lemma async_refresh_never_raises:
  "\<exists>r. snd (async_refresh E J args kwargs w) = Inr r"
  by (simp add: async_refresh_def Let_def split: option.splits prod.splits sum.splits)


lemma async_refresh_refused_fetch_calls:
  "apply_async E (refresh_task J args kwargs) (task_options J) = Some e \<Longrightarrow>
   fetch_calls (fst (async_refresh E J args kwargs w)) = fetch_calls w @ [(args, kwargs)]"
  using refresh_fetch_calls [of E J args kwargs
        "logger Error_async_failed
           (w\<lparr>async_calls := async_calls w @ [(refresh_task J args kwargs, task_options J)]\<rparr>)"]
  by (auto simp add: async_refresh_def refresh_task_def logger_def Let_def
        split: prod.splits sum.splits)

lemma async_refresh_refused_fetch_raises:
  assumes "apply_async E (refresh_task J args kwargs) (task_options J) = Some e"
    and "fetch J args kwargs = Inl e2"
  shows "async_refresh E J args kwargs w =
     (w\<lparr>async_calls := async_calls w @ [(refresh_task J args kwargs, task_options J)],
        logged := logged w @ [Error_async_failed, Error_sync_failed e2],
        fetch_calls := fetch_calls w @ [(args, kwargs)],
        clock := clock w + int (fetch_seconds J args kwargs)\<rparr>, Inr PyNone)"
  using assms
  by (simp add: async_refresh_def refresh_task_def refresh_fetch_raises logger_def)



subsection \<open>The branches of \<^verbatim>\<open>get\<close> and \<^verbatim>\<open>invalidate\<close>\<close>

lemma get_miss_sync:
  assumes "key E J args kwargs = Inr k" and "cache_get w k = PyNone"
    and "fetch_on_miss J" and "fetch J args kwargs = Inr v"
    and "cache_keeps E k
           (PyTuple [PyInt (clock w + int (fetch_seconds J args kwargs) + lifetime J),
                     py_literal E ''FRESH'', v]) (cache_ttl J)"
  shows "get E J args kwargs w =
     (w\<lparr>logged := logged w @ [Debug_miss_sync k],
        fetch_calls := fetch_calls w @ [(args, kwargs)],
        clock := clock w + int (fetch_seconds J args kwargs),
        store := (store w)(k \<mapsto>
          PyTuple [PyInt (clock w + int (fetch_seconds J args kwargs) + lifetime J),
                   py_literal E ''FRESH'', v])\<rparr>,
      Inr v)"
proof -
  have r: "refresh E J args kwargs (logger (Debug_miss_sync k) w) =
     ((logger (Debug_miss_sync k) w)\<lparr>fetch_calls := fetch_calls w @ [(args, kwargs)],
        clock := clock w + int (fetch_seconds J args kwargs),
        store := (store w)(k \<mapsto>
          PyTuple [PyInt (clock w + int (fetch_seconds J args kwargs) + lifetime J),
                   py_literal E ''FRESH'', v])\<rparr>,
      Inr v)"
    using refresh_result [OF assms(4) assms(1), of "logger (Debug_miss_sync k) w"] assms(5)
    by (simp add: logger_def)
  show ?thesis using assms(1-3)
    by (simp add: get_def prepare_args_def prepare_kwargs_def
        should_missing_item_be_fetched_synchronously_def r got_miss_def) (simp add: logger_def)
qed

lemma get_miss_async:
  assumes "key E J args kwargs = Inr k" and "cache_get w k = PyNone"
    and "\<not> fetch_on_miss J"
    and "cache_keeps E k (PyTuple [PyInt (clock w + refresh_timeout J), PyNone,
                                    py_literal E ''QUEUED'']) (cache_ttl J)"
  shows "get E J args kwargs w =
     (fst (async_refresh E J args kwargs
        (w\<lparr>logged := logged w @ [Debug_miss_async k],
           store := (store w)(k \<mapsto> PyTuple [PyInt (clock w + refresh_timeout J), PyNone,
                                             py_literal E ''QUEUED''])\<rparr>)),
      Inr PyNone)"
proof -
  obtain r where r: "snd (async_refresh E J args kwargs
        (w\<lparr>logged := logged w @ [Debug_miss_async k],
           store := (store w)(k \<mapsto> PyTuple [PyInt (clock w + refresh_timeout J), PyNone,
                                             py_literal E ''QUEUED''])\<rparr>)) = Inr r"
    using async_refresh_never_raises by blast
  have c: "cache_set E J k (PyInt (clock w + refresh_timeout J)) PyNone (py_literal E ''QUEUED'')
             (w\<lparr>logged := logged w @ [Debug_miss_async k]\<rparr>) =
           (w\<lparr>logged := logged w @ [Debug_miss_async k],
              store := (store w)(k \<mapsto> PyTuple [PyInt (clock w + refresh_timeout J), PyNone,
                                                py_literal E ''QUEUED''])\<rparr>, Inr ())"
    using assms(4) by (simp add: cache_set_kept)
  from assms(1-3) r show ?thesis
    by (auto simp add: get_def prepare_args_def prepare_kwargs_def
        should_missing_item_be_fetched_synchronously_def got_miss_def
        timeout_def time_time_def empty_def c logger_def
        split: prod.splits sum.splits)
qed

lemma get_stale_async:
  assumes "key E J args kwargs = Inr k" and "store w k = Some (PyTuple [PyInt e, x, y])"
    and "e < clock w" and "fetch_on_stale_threshold J = None"
    and "cache_keeps E k (PyTuple [PyInt (clock w + refresh_timeout J), x,
                                    py_literal E ''QUEUED'']) (cache_ttl J)"
  shows "get E J args kwargs w =
     (fst (async_refresh E J args kwargs
        (w\<lparr>logged := logged w @ [Debug_stale_async k],
           store := (store w)(k \<mapsto> PyTuple [PyInt (clock w + refresh_timeout J), x,
                                             py_literal E ''QUEUED''])\<rparr>)),
      Inr x)"
proof -
  obtain r where r: "snd (async_refresh E J args kwargs
        (w\<lparr>logged := logged w @ [Debug_stale_async k],
           store := (store w)(k \<mapsto> PyTuple [PyInt (clock w + refresh_timeout J), x,
                                             py_literal E ''QUEUED''])\<rparr>)) = Inr r"
    using async_refresh_never_raises by blast
  have c: "cache_set E J k (PyInt (clock w + refresh_timeout J)) x (py_literal E ''QUEUED'')
             (w\<lparr>logged := logged w @ [Debug_stale_async k]\<rparr>) =
           (w\<lparr>logged := logged w @ [Debug_stale_async k],
              store := (store w)(k \<mapsto> PyTuple [PyInt (clock w + refresh_timeout J), x,
                                                py_literal E ''QUEUED''])\<rparr>, Inr ())"
    using assms(5) by (simp add: cache_set_kept)
  from assms(1-4) r show ?thesis
    by (auto simp add: get_def prepare_args_def prepare_kwargs_def cache_get_def
        should_stale_item_be_fetched_synchronously_def got_stale_def
        timeout_def time_time_def unpack3_def py_iter_def
        time_minus_def py_number_def c logger_def
        split: prod.splits sum.splits)
qed

text \<open>
  When the backend loses the write of the stale path, the read-back raises before
  anything is dispatched.
\<close>

lemma get_stale_write_lost:
  assumes "key E J args kwargs = Inr k" and "store w k = Some (PyTuple [PyInt e, x, y])"
    and "e < clock w" and "fetch_on_stale_threshold J = None"
    and "\<not> cache_keeps E k (PyTuple [PyInt (clock w + refresh_timeout J), x,
                                      py_literal E ''QUEUED'']) (cache_ttl J)"
    and "CACHEBACK_VERIFY_CACHE_WRITE E \<noteq> Some False"
  shows "get E J args kwargs w =
     (w\<lparr>logged := logged w @ [Debug_stale_async k], store := (store w)(k := None)\<rparr>,
      Inl (RuntimeError (''Unable to save data of type '' @
             py_type (PY2 E) (py_literal E ''QUEUED'') @ '' to cache'')))"
proof -
  have n: "py_literal E ''QUEUED'' \<noteq> PyNone" by (simp add: py_literal_def)
  have c: "cache_set E J k (PyInt (clock w + refresh_timeout J)) x (py_literal E ''QUEUED'')
             (w\<lparr>logged := logged w @ [Debug_stale_async k]\<rparr>) =
           (w\<lparr>logged := logged w @ [Debug_stale_async k], store := (store w)(k := None)\<rparr>,
            Inl (RuntimeError (''Unable to save data of type '' @
                   py_type (PY2 E) (py_literal E ''QUEUED'') @ '' to cache'')))"
    using cache_set_lost [OF assms(5) n assms(6), of "w\<lparr>logged := logged w @ [Debug_stale_async k]\<rparr>"]
    by simp
  from assms(1-4) show ?thesis
    by (simp add: get_def prepare_args_def prepare_kwargs_def cache_get_def
        should_stale_item_be_fetched_synchronously_def
        timeout_def time_time_def unpack3_def py_iter_def
        time_minus_def py_number_def logger_def c)
qed


lemma invalidate_triple:
  assumes "key E J args kwargs = Inr k" and "store w k = Some (PyTuple [x, y, z])"
  shows "invalidate E J args kwargs w = (w, Inl ValueError)"
  using assms
  by (auto simp add: invalidate_def prepare_args_def prepare_kwargs_def cache_get_def
        unpack2_def py_iter_def)

subsection \<open>The scenario worlds\<close>

lemma key_job_V: "key E job_V [] [] = Inr ''app.jobs.J''"
  by (simp add: key_no_arguments job_V_def Job_def)

lemma key_job_V_lazy: "key E job_V_lazy [] [] = Inr ''app.jobs.J''"
  by (simp add: key_no_arguments job_V_lazy_def job_V_def Job_def)


lemma accepting: "apply_async env_accepting t opts = None"
  by (simp add: env_accepting_def)

lemma refusing: "apply_async env_refusing t opts = Some (OtherError ''Connection refused'')"
  by (simp add: env_refusing_def)

lemma job_V_simps:
  "class_path job_V = ''app.jobs.J''" "lifetime job_V = 600" "refresh_timeout job_V = 60"
  "fetch_on_miss job_V" "fetch_on_stale_threshold job_V = None" "task_options job_V = []"
  "fetch job_V args kwargs = Inr V" "fetch_seconds job_V args kwargs = 0"
  "cache_ttl job_V = 2592000"
  by (simp_all add: job_V_def Job_def MEMCACHE_MAX_EXPIRATION_def)

lemma job_V_lazy_simps:
  "class_path job_V_lazy = ''app.jobs.J''" "lifetime job_V_lazy = 600"
  "refresh_timeout job_V_lazy = 60"
  "\<not> fetch_on_miss job_V_lazy" "fetch_on_stale_threshold job_V_lazy = None"
  "task_options job_V_lazy = []" "fetch job_V_lazy args kwargs = Inr V"
  "fetch_seconds job_V_lazy args kwargs = 0" "cache_ttl job_V_lazy = 2592000"
  by (simp_all add: job_V_lazy_def job_V_def Job_def MEMCACHE_MAX_EXPIRATION_def)


lemma job_abstract_lazy_simps:
  "class_path job_abstract_lazy = ''app.jobs.J''" "refresh_timeout job_abstract_lazy = 60"
  "\<not> fetch_on_miss job_abstract_lazy" "task_options job_abstract_lazy = []"
  "fetch job_abstract_lazy args kwargs = Inl NotImplementedError"
  "fetch_seconds job_abstract_lazy args kwargs = 0" "cache_ttl job_abstract_lazy = 2592000"
  by (simp_all add: job_abstract_lazy_def Job_def MEMCACHE_MAX_EXPIRATION_def)

lemma env_simps:
  "PY2 env_accepting = False" "PY2 env_refusing = False"
  "py_literal env_accepting s = PyText s" "py_literal env_refusing s = PyText s"
  "cache_keeps env_accepting k v ttl = (0 < ttl)" "cache_keeps env_refusing k v ttl = (0 < ttl)"
  by (simp_all add: env_accepting_def env_refusing_def py_literal_def)

lemma world_0_simps:
  "store world_0 = Map.empty" "clock world_0 = 0" "async_calls world_0 = []"
  "fetch_calls world_0 = []" "logged world_0 = []"
  by (simp_all add: world_0_def)

lemma world_with_simps:
  "store (world_with k item t) k = Some item" "clock (world_with k item t) = t"
  "async_calls (world_with k item t) = []" "fetch_calls (world_with k item t) = []"
  "logged (world_with k item t) = []"
  by (simp_all add: world_with_def world_0_def)

lemma scenario_first_get:
  "get env_accepting job_V [PyText ''a''] [] world_0 =
     (world_0\<lparr>logged := [Debug_miss_sync scenario_key],
        fetch_calls := [([PyText ''a''], [])],
        store := [scenario_key \<mapsto> PyTuple [PyInt 600, PyText ''FRESH'', V]]\<rparr>, Inr V)"
  using get_miss_sync [of env_accepting job_V "[PyText ''a'']" "[]" scenario_key world_0 V]
  by (simp add: key_of_a scenario_key_def cache_get_def world_0_simps job_V_simps env_simps)

section \<open>The claims\<close>

text \<open>
  C1. The scenario with lifetime 600, refresh timeout 60 and \<^verbatim>\<open>fetch_on_miss\<close>: the
  call at time 0 computes \<open>V\<close>, returns it and leaves the entry (600, FRESH, \<open>V\<close>).
  The call at time 700 makes one async dispatch, but it returns the string FRESH and
  leaves the tuple (760, FRESH, QUEUED): \<^verbatim>\<open>get\<close> unpacks the stored tuple as
  (expiry, data, status) and hands \<^verbatim>\<open>cache_set\<close> the data where it takes the status,
  while \<^verbatim>\<open>refresh\<close> stored (expiry, status, data). The value \<open>V\<close> is neither returned
  nor kept.
\<close>

theorem scenario_stale_get:
  "key env_accepting job_V [PyText ''a''] [] = Inr scenario_key
   \<and> snd (get env_accepting job_V [PyText ''a''] [] world_0) = Inr V
   \<and> store scenario_w1 scenario_key = Some (PyTuple [PyInt 600, PyText ''FRESH'', V])
   \<and> snd (get env_accepting job_V [PyText ''a''] [] (scenario_w1\<lparr>clock := 700\<rparr>))
        = Inr (PyText ''FRESH'')
   \<and> store scenario_w2 scenario_key
        = Some (PyTuple [PyInt 760, PyText ''FRESH'', PyText ''QUEUED''])
   \<and> length (async_calls scenario_w2) = 1"
proof -
  have k: "key env_accepting job_V [PyText ''a''] [] = Inr scenario_key"
    by (simp add: key_of_a scenario_key_def)
  have w1: "scenario_w1 = world_0\<lparr>logged := [Debug_miss_sync scenario_key],
        fetch_calls := [([PyText ''a''], [])],
        store := [scenario_key \<mapsto> PyTuple [PyInt 600, PyText ''FRESH'', V]]\<rparr>"
    by (simp add: scenario_w1_def scenario_first_get)
  have s: "store (scenario_w1\<lparr>clock := 700\<rparr>) scenario_key
             = Some (PyTuple [PyInt 600, PyText ''FRESH'', V])"
    by (simp add: w1)
  have c: "(600::int) < clock (scenario_w1\<lparr>clock := 700\<rparr>)" by simp
  have p: "cache_keeps env_accepting scenario_key
             (PyTuple [PyInt (clock (scenario_w1\<lparr>clock := 700\<rparr>) + refresh_timeout job_V),
                       PyText ''FRESH'', py_literal env_accepting ''QUEUED'']) (cache_ttl job_V)"
    by (simp add: env_simps job_V_simps)
  note g = get_stale_async [OF k s c job_V_simps(5) p]
  show ?thesis
    by (simp add: k scenario_first_get scenario_w2_def g async_refresh_accepted accepting
          job_V_simps env_simps) (simp add: w1 world_0_simps)
qed

text \<open>
  C2. \<^verbatim>\<open>invalidate\<close> on a key that holds an entry. The entry is the three-component
  tuple that \<^verbatim>\<open>cache_set\<close> writes, and \<^verbatim>\<open>invalidate\<close> unpacks it into two names
  (\<^verbatim>\<open>expiry, data = item\<close>): the call raises \<^verbatim>\<open>ValueError\<close> before it writes or
  dispatches anything, and the world stays as it was.
\<close>

theorem invalidate_existing_entry_raises:
  assumes "key E J args kwargs = Inr k"
    and "store w k = Some (PyTuple [PyInt e, status, data])"
  shows "invalidate E J args kwargs w = (w, Inl ValueError)"
  using assms by (rule invalidate_triple)

text \<open>The same at the entry (600, FRESH, \<open>V\<close>), invalidated at time 700.\<close>

theorem invalidate_existing_entry_raises_witness:
  "key env_accepting job_V [] [] = Inr ''app.jobs.J''
   \<and> store (world_with ''app.jobs.J'' (PyTuple [PyInt 600, PyText ''FRESH'', V]) 700) ''app.jobs.J''
        = Some (PyTuple [PyInt 600, PyText ''FRESH'', V])
   \<and> invalidate env_accepting job_V [] []
         (world_with ''app.jobs.J'' (PyTuple [PyInt 600, PyText ''FRESH'', V]) 700)
        = (world_with ''app.jobs.J'' (PyTuple [PyInt 600, PyText ''FRESH'', V]) 700, Inl ValueError)"
  using invalidate_existing_entry_raises [of env_accepting job_V "[]" "[]" "''app.jobs.J''"
      "world_with ''app.jobs.J'' (PyTuple [PyInt 600, PyText ''FRESH'', V]) 700" 600 "PyText ''FRESH''" V]
  by (simp add: key_job_V world_with_simps)










text \<open>
  C6. On a cache miss without \<^verbatim>\<open>fetch_on_miss\<close>, with an accepting queue and a
  backend that keeps what is written under the key, \<^verbatim>\<open>get\<close> returns the value of
  \<^verbatim>\<open>empty()\<close> and makes one async dispatch, and the expiry of what it stores is now +
  refresh timeout. But the stored tuple is (expiry, \<^verbatim>\<open>empty()\<close>, QUEUED): the call
  \<^verbatim>\<open>cache_set(key, timeout, empty, 'QUEUED')\<close> passes the payload where
  \<^verbatim>\<open>cache_set(key, expiry, status, data)\<close> takes the status, so the status of the
  placeholder is \<^verbatim>\<open>None\<close> and its payload is the string QUEUED.
\<close>

theorem get_miss_placeholder:
  assumes "key E J args kwargs = Inr k"
    and "cache_get w k = PyNone"
    and "\<not> fetch_on_miss J"
    and "apply_async E (refresh_task J args kwargs) (task_options J) = None"
    and "\<forall>v. cache_keeps E k v (cache_ttl J)"
  shows "snd (get E J args kwargs w) = Inr (empty J)
       \<and> store (fst (get E J args kwargs w)) k
            = Some (PyTuple [PyInt (clock w + refresh_timeout J), empty J, py_literal E ''QUEUED''])
       \<and> async_calls (fst (get E J args kwargs w))
            = async_calls w @ [(refresh_task J args kwargs, task_options J)]
       \<and> fetch_calls (fst (get E J args kwargs w)) = fetch_calls w"
proof -
  have p: "cache_keeps E k (PyTuple [PyInt (clock w + refresh_timeout J), PyNone,
                                      py_literal E ''QUEUED'']) (cache_ttl J)"
    using assms(5) by simp
  show ?thesis
    by (simp add: get_miss_async [OF assms(1-3) p] async_refresh_accepted [OF assms(4)] empty_def)
qed

text \<open>The lazy job on the empty cache at time 0: the tuple stored is (60, None, QUEUED).\<close>

theorem get_miss_placeholder_witness:
  "key env_accepting job_V_lazy [] [] = Inr ''app.jobs.J''
   \<and> cache_get world_0 ''app.jobs.J'' = PyNone
   \<and> \<not> fetch_on_miss job_V_lazy
   \<and> apply_async env_accepting (refresh_task job_V_lazy [] []) (task_options job_V_lazy) = None
   \<and> snd (get env_accepting job_V_lazy [] [] world_0) = Inr PyNone
   \<and> store (fst (get env_accepting job_V_lazy [] [] world_0)) ''app.jobs.J''
        = Some (PyTuple [PyInt 60, PyNone, PyText ''QUEUED''])
   \<and> length (async_calls (fst (get env_accepting job_V_lazy [] [] world_0))) = 1"
  using get_miss_placeholder [of env_accepting job_V_lazy "[]" "[]" "''app.jobs.J''" world_0]
  by (simp add: key_job_V_lazy cache_get_def world_0_simps job_V_lazy_simps env_simps accepting
        empty_def)

text \<open>
  C7, as amended. \<^verbatim>\<open>key\<close> is a function of the arguments and of the keyword
  arguments in their iteration order. For two calls with the same positional arguments
  and non-empty keyword arguments that both return a key, the keys are identical
  exactly when the digest of the tuple of keyword names and the digest of the tuple of
  keyword values, both taken in iteration order, coincide. Identical keyword arguments
  in the same order therefore give the identical key; the same pairs in another order
  give it only if MD5 collides.
\<close>

theorem key_kwargs_order:
  assumes "kwargs \<noteq> []" and "kwargs' \<noteq> []"
    and "key E J args kwargs = Inr s" and "key E J args kwargs' = Inr s'"
  shows "s = s' \<longleftrightarrow>
           hash E (PyTuple (map (\<lambda>kv. py_literal E (fst kv)) kwargs))
             = hash E (PyTuple (map (\<lambda>kv. py_literal E (fst kv)) kwargs'))
         \<and> hash E (PyTuple (map snd kwargs)) = hash E (PyTuple (map snd kwargs'))"
proof -
  obtain h1 h2 h3 where a: "hash E (PyTuple args) = Inr h1"
      "hash E (PyTuple (map (\<lambda>kv. py_literal E (fst kv)) kwargs)) = Inr h2"
      "hash E (PyTuple (map snd kwargs)) = Inr h3"
      "s = class_path J @ '':'' @ h1 @ '':'' @ h2 @ '':'' @ h3"
    using key_kwargs_shape [OF assms(1) assms(3)] by blast
  obtain g1 g2 g3 where b: "hash E (PyTuple args) = Inr g1"
      "hash E (PyTuple (map (\<lambda>kv. py_literal E (fst kv)) kwargs')) = Inr g2"
      "hash E (PyTuple (map snd kwargs')) = Inr g3"
      "s' = class_path J @ '':'' @ g1 @ '':'' @ g2 @ '':'' @ g3"
    using key_kwargs_shape [OF assms(2) assms(4)] by blast
  have l: "length h2 = length g2"
    using hash_length [OF a(2)] hash_length [OF b(2)] by simp
  from a b l show ?thesis by auto
qed

text \<open>
  The keyword arguments a=1, b=2 and b=2, a=1: both calls return a key, and by the
  theorem the keys differ, since the digests of ('a', 'b') and ('b', 'a') do.
\<close>

theorem key_kwargs_order_witness:
  "[(''a'', PyInt 1), (''b'', PyInt 2)] \<noteq> [] \<and> [(''b'', PyInt 2), (''a'', PyInt 1)] \<noteq> []
   \<and> (\<exists>s s'. key env_accepting job_V [] [(''a'', PyInt 1), (''b'', PyInt 2)] = Inr s
            \<and> key env_accepting job_V [] [(''b'', PyInt 2), (''a'', PyInt 1)] = Inr s'
            \<and> s \<noteq> s')"
proof -
  obtain s where s: "key env_accepting job_V [] [(''a'', PyInt 1), (''b'', PyInt 2)] = Inr s"
    using key_renders [of "[]" "[(''a'', PyInt 1), (''b'', PyInt 2)]" env_accepting job_V] by auto
  obtain s' where s': "key env_accepting job_V [] [(''b'', PyInt 2), (''a'', PyInt 1)] = Inr s'"
    using key_renders [of "[]" "[(''b'', PyInt 2), (''a'', PyInt 1)]" env_accepting job_V] by auto
  have "s \<noteq> s'"
    using key_kwargs_order [OF _ _ s s'] by (simp add: env_simps digest_keys_ab digest_keys_ba)
  with s s' show ?thesis by auto
qed

text \<open>
  The claim as stated fails: the two calls hold the identical pairs and get different
  cache keys.
\<close>

theorem key_kwargs_order_counterexample:
  "set [(''a'', PyInt 1), (''b'', PyInt 2)] = set [(''b'', PyInt 2), (''a'', PyInt 1)]
   \<and> key env_accepting job_V [] [(''a'', PyInt 1), (''b'', PyInt 2)]
       \<noteq> key env_accepting job_V [] [(''b'', PyInt 2), (''a'', PyInt 1)]"
proof -
  obtain h1 where h1: "hash env_accepting (PyTuple []) = Inr h1"
    using hash_tuple_cases [of "[]" env_accepting] by auto
  obtain h3 where h3: "hash env_accepting (PyTuple [PyInt 1, PyInt 2]) = Inr h3"
    using hash_tuple_cases [of "[PyInt 1, PyInt 2]" env_accepting] by auto
  obtain g3 where g3: "hash env_accepting (PyTuple [PyInt 2, PyInt 1]) = Inr g3"
    using hash_tuple_cases [of "[PyInt 2, PyInt 1]" env_accepting] by auto
  have a: "key env_accepting job_V [] [(''a'', PyInt 1), (''b'', PyInt 2)]
        = Inr (class_path job_V @ '':'' @ h1 @ '':'' @ ''aca14e654bc28ce1c1e8131004244d64'' @ '':'' @ h3)"
    by (rule key_kwargs) (simp_all add: h1 h3 env_simps digest_keys_ab)
  have b: "key env_accepting job_V [] [(''b'', PyInt 2), (''a'', PyInt 1)]
        = Inr (class_path job_V @ '':'' @ h1 @ '':'' @ ''82ca240c4a3f5579a5c33404af58e41b'' @ '':'' @ g3)"
    by (rule key_kwargs) (simp_all add: h1 g3 env_simps digest_keys_ba)
  show ?thesis unfolding a b by auto
qed

text \<open>
  C8, as amended. What \<^verbatim>\<open>key\<close> does is decided by the first exception, if any, that
  rendering the positional arguments and then the keyword values raises. When nothing
  raises, \<^verbatim>\<open>key\<close> returns a key; this includes values that Python itself cannot
  hash, such as lists. When the exception is a \<^verbatim>\<open>TypeError\<close>, \<^verbatim>\<open>key\<close> raises the
  \<^verbatim>\<open>RuntimeError\<close> whose message tells the caller to implement their own key
  generation method. An exception of any other type propagates as it is.
\<close>

theorem key_outcome_by_rendering:
  "(first_raises (args @ map snd kwargs) = None \<longrightarrow> (\<exists>s. key E J args kwargs = Inr s))
   \<and> (first_raises (args @ map snd kwargs) = Some TypeError \<longrightarrow>
        key E J args kwargs = Inl (RuntimeError
          ''Unable to generate cache key due to unhashableargs or kwargs - you need to implement your ownkey generation method to avoid this problem''))
   \<and> (\<forall>e. first_raises (args @ map snd kwargs) = Some e \<longrightarrow> e \<noteq> TypeError \<longrightarrow>
        key E J args kwargs = Inl e)"
  using key_renders [of args kwargs E J] key_type_error [of args kwargs E J]
    key_other_error [of args kwargs _ E J]
  by (simp add: unhashable_message_def)

text \<open>
  An object whose \<^verbatim>\<open>__repr__\<close> raises \<^verbatim>\<open>TypeError\<close>, one that renders, and one whose
  \<^verbatim>\<open>__repr__\<close> raises something else.
\<close>

theorem key_outcome_by_rendering_witness:
  "first_raises ([PyInt 1, PyObj ''app.models.Thing'' (Inl TypeError)] @ map snd []) = Some TypeError
   \<and> key env_accepting job_V [PyInt 1, PyObj ''app.models.Thing'' (Inl TypeError)] []
        = Inl (RuntimeError
          ''Unable to generate cache key due to unhashableargs or kwargs - you need to implement your ownkey generation method to avoid this problem'')
   \<and> first_raises ([PyInt 1] @ map snd [(''page'', PyObj ''app.models.Thing'' (Inr ''Thing(3)''))])
        = None
   \<and> (\<exists>s. key env_accepting job_V [PyInt 1]
             [(''page'', PyObj ''app.models.Thing'' (Inr ''Thing(3)''))] = Inr s)
   \<and> first_raises ([] @ map snd [(''page'', PyObj ''app.models.Thing'' (Inl (OtherError ''boom'')))])
        = Some (OtherError ''boom'')
   \<and> key env_accepting job_V [] [(''page'', PyObj ''app.models.Thing'' (Inl (OtherError ''boom'')))]
        = Inl (OtherError ''boom'')"
  using key_outcome_by_rendering [of "[PyInt 1, PyObj ''app.models.Thing'' (Inl TypeError)]" "[]"
      env_accepting job_V]
    key_outcome_by_rendering [of "[PyInt 1]"
      "[(''page'', PyObj ''app.models.Thing'' (Inr ''Thing(3)''))]" env_accepting job_V]
    key_outcome_by_rendering [of "[]"
      "[(''page'', PyObj ''app.models.Thing'' (Inl (OtherError ''boom'')))]" env_accepting job_V]
  by simp

text \<open>
  The claim as stated fails in both directions: an argument that cannot be rendered
  because its \<^verbatim>\<open>__repr__\<close> raises \<^verbatim>\<open>ValueError\<close> makes \<^verbatim>\<open>key\<close> fail with that
  \<^verbatim>\<open>ValueError\<close>, not with the \<^verbatim>\<open>RuntimeError\<close>; and a list, which Python cannot
  hash, gets a key.
\<close>

theorem key_unrenderable_counterexample:
  "first_raises [PyObj ''app.models.Thing'' (Inl ValueError)] = Some ValueError
   \<and> key env_accepting job_V [PyObj ''app.models.Thing'' (Inl ValueError)] [] = Inl ValueError
   \<and> key env_accepting job_V [PyList [PyInt 1, PyInt 2]] []
        = Inr ''app.jobs.J:94a14176f272107846956cd04ab85cc8''"
  using key_other_error [of "[PyObj ''app.models.Thing'' (Inl ValueError)]" "[]" ValueError
      env_accepting job_V]
  by (simp add: key_of_list)

text \<open>
  C9. When the submission to the task queue raises, \<^verbatim>\<open>async_refresh\<close> does not
  raise; it has called \<^verbatim>\<open>fetch\<close> exactly once (the one synchronous fallback); when
  that raises too, the failure is logged and \<^verbatim>\<open>None\<close> is returned. A \<^verbatim>\<open>get\<close> that
  went the asynchronous way on a backend that keeps its write does not raise either,
  with that one fallback made: on a miss it returns the placeholder. On a stale entry
  it returns the second component of the stored tuple, and that is where the claim
  fails: for an entry that \<^verbatim>\<open>refresh\<close> wrote as (expiry, status, data) the caller
  receives the status string and not the stale value.
\<close>

theorem async_refresh_failure_is_swallowed:
  assumes "apply_async E (refresh_task J args kwargs) (task_options J) = Some e"
  shows "(\<exists>r. snd (async_refresh E J args kwargs w) = Inr r)
       \<and> fetch_calls (fst (async_refresh E J args kwargs w)) = fetch_calls w @ [(args, kwargs)]
       \<and> (\<forall>e2. fetch J args kwargs = Inl e2 \<longrightarrow>
             snd (async_refresh E J args kwargs w) = Inr PyNone
             \<and> logged (fst (async_refresh E J args kwargs w))
                 = logged w @ [Error_async_failed, Error_sync_failed e2])
       \<and> (\<forall>k. key E J args kwargs = Inr k \<longrightarrow> cache_get w k = PyNone \<longrightarrow> \<not> fetch_on_miss J
             \<longrightarrow> (\<forall>v. cache_keeps E k v (cache_ttl J)) \<longrightarrow>
             snd (get E J args kwargs w) = Inr (got_miss (empty J) True args kwargs)
             \<and> fetch_calls (fst (get E J args kwargs w)) = fetch_calls w @ [(args, kwargs)])
       \<and> (\<forall>k t x y. key E J args kwargs = Inr k \<longrightarrow> store w k = Some (PyTuple [PyInt t, x, y])
             \<longrightarrow> t < clock w \<longrightarrow> fetch_on_stale_threshold J = None
             \<longrightarrow> (\<forall>v. cache_keeps E k v (cache_ttl J)) \<longrightarrow>
             snd (get E J args kwargs w) = Inr (got_stale x True args kwargs)
             \<and> fetch_calls (fst (get E J args kwargs w)) = fetch_calls w @ [(args, kwargs)])"
proof (intro conjI allI impI)
  show "\<exists>r. snd (async_refresh E J args kwargs w) = Inr r"
    by (rule async_refresh_never_raises)
  show "fetch_calls (fst (async_refresh E J args kwargs w)) = fetch_calls w @ [(args, kwargs)]"
    by (rule async_refresh_refused_fetch_calls [OF assms])
next
  fix e2 assume f: "fetch J args kwargs = Inl e2"
  show "snd (async_refresh E J args kwargs w) = Inr PyNone"
    by (simp add: async_refresh_refused_fetch_raises [OF assms f])
  show "logged (fst (async_refresh E J args kwargs w))
          = logged w @ [Error_async_failed, Error_sync_failed e2]"
    by (simp add: async_refresh_refused_fetch_raises [OF assms f])
next
  fix k assume h: "key E J args kwargs = Inr k" "cache_get w k = PyNone" "\<not> fetch_on_miss J"
    and p: "\<forall>v. cache_keeps E k v (cache_ttl J)"
  from p have p': "cache_keeps E k (PyTuple [PyInt (clock w + refresh_timeout J), PyNone,
                                      py_literal E ''QUEUED'']) (cache_ttl J)" by simp
  show "snd (get E J args kwargs w) = Inr (got_miss (empty J) True args kwargs)"
    by (simp add: get_miss_async [OF h p'] got_miss_def empty_def)
  show "fetch_calls (fst (get E J args kwargs w)) = fetch_calls w @ [(args, kwargs)]"
    by (simp add: get_miss_async [OF h p'] async_refresh_refused_fetch_calls [OF assms])
next
  fix k t x y
  assume h: "key E J args kwargs = Inr k" "store w k = Some (PyTuple [PyInt t, x, y])"
    "t < clock w" "fetch_on_stale_threshold J = None"
    and p: "\<forall>v. cache_keeps E k v (cache_ttl J)"
  from p have p': "cache_keeps E k (PyTuple [PyInt (clock w + refresh_timeout J), x,
                                      py_literal E ''QUEUED'']) (cache_ttl J)" by simp
  show "snd (get E J args kwargs w) = Inr (got_stale x True args kwargs)"
    by (simp add: get_stale_async [OF h p'] got_stale_def)
  show "fetch_calls (fst (get E J args kwargs w)) = fetch_calls w @ [(args, kwargs)]"
    by (simp add: get_stale_async [OF h p'] async_refresh_refused_fetch_calls [OF assms])
qed

text \<open>
  A broker that refuses the connection. With a job whose \<^verbatim>\<open>fetch\<close> is not implemented,
  both failures are logged and \<^verbatim>\<open>get\<close> returns the placeholder. With the stale entry
  (600, FRESH, \<open>V\<close>) read at time 700, \<^verbatim>\<open>get\<close> returns the string FRESH.
\<close>

theorem async_refresh_failure_is_swallowed_witness:
  "apply_async env_refusing (refresh_task job_abstract_lazy [] []) (task_options job_abstract_lazy)
     = Some (OtherError ''Connection refused'')
   \<and> fetch job_abstract_lazy [] [] = Inl NotImplementedError
   \<and> snd (async_refresh env_refusing job_abstract_lazy [] [] world_0) = Inr PyNone
   \<and> fetch_calls (fst (async_refresh env_refusing job_abstract_lazy [] [] world_0)) = [([], [])]
   \<and> logged (fst (async_refresh env_refusing job_abstract_lazy [] [] world_0))
        = [Error_async_failed, Error_sync_failed NotImplementedError]
   \<and> snd (get env_refusing job_abstract_lazy [] [] world_0) = Inr PyNone
   \<and> apply_async env_refusing (refresh_task job_V [] []) (task_options job_V)
        = Some (OtherError ''Connection refused'')
   \<and> store (world_with ''app.jobs.J'' (PyTuple [PyInt 600, PyText ''FRESH'', V]) 700) ''app.jobs.J''
        = Some (PyTuple [PyInt 600, PyText ''FRESH'', V])
   \<and> snd (get env_refusing job_V [] []
         (world_with ''app.jobs.J'' (PyTuple [PyInt 600, PyText ''FRESH'', V]) 700))
        = Inr (PyText ''FRESH'')
   \<and> fetch_calls (fst (get env_refusing job_V [] []
         (world_with ''app.jobs.J'' (PyTuple [PyInt 600, PyText ''FRESH'', V]) 700))) = [([], [])]"
proof -
  have r: "apply_async env_refusing (refresh_task job_abstract_lazy [] [])
             (task_options job_abstract_lazy) = Some (OtherError ''Connection refused'')"
    by (rule refusing)
  have k: "key env_refusing job_abstract_lazy [] [] = Inr ''app.jobs.J''"
    by (simp add: key_no_arguments job_abstract_lazy_simps)
  have m: "cache_get world_0 ''app.jobs.J'' = PyNone"
    by (simp add: cache_get_def world_0_simps)
  have r2: "apply_async env_refusing (refresh_task job_V [] []) (task_options job_V)
             = Some (OtherError ''Connection refused'')"
    by (rule refusing)
  have a: "snd (async_refresh env_refusing job_abstract_lazy [] [] world_0) = Inr PyNone
   \<and> fetch_calls (fst (async_refresh env_refusing job_abstract_lazy [] [] world_0)) = [([], [])]
   \<and> logged (fst (async_refresh env_refusing job_abstract_lazy [] [] world_0))
        = [Error_async_failed, Error_sync_failed NotImplementedError]
   \<and> snd (get env_refusing job_abstract_lazy [] [] world_0) = Inr PyNone"
    using async_refresh_failure_is_swallowed [OF r, of world_0] k m
    by (simp add: job_abstract_lazy_simps world_0_simps env_simps got_miss_def empty_def)
  have b: "snd (get env_refusing job_V [] []
         (world_with ''app.jobs.J'' (PyTuple [PyInt 600, PyText ''FRESH'', V]) 700))
        = Inr (PyText ''FRESH'')
   \<and> fetch_calls (fst (get env_refusing job_V [] []
         (world_with ''app.jobs.J'' (PyTuple [PyInt 600, PyText ''FRESH'', V]) 700))) = [([], [])]"
    using async_refresh_failure_is_swallowed [OF r2,
        of "world_with ''app.jobs.J'' (PyTuple [PyInt 600, PyText ''FRESH'', V]) 700"]
    by (simp add: key_job_V job_V_simps world_with_simps env_simps got_stale_def)
  from r r2 a b show ?thesis
    by (simp add: job_abstract_lazy_simps world_with_simps)
qed

text \<open>
  C10. The entry that \<^verbatim>\<open>refresh\<close> writes on a miss has all three fields set. The
  entry that \<^verbatim>\<open>get\<close> writes on a miss without \<^verbatim>\<open>fetch_on_miss\<close> has not: its status
  is \<^verbatim>\<open>None\<close>, since \<^verbatim>\<open>cache_set\<close> was handed the empty payload where it takes the
  status.
\<close>

theorem lazy_miss_stores_incomplete_entry:
  "store (fst (get env_accepting job_V [] [] world_0)) ''app.jobs.J''
     = Some (PyTuple [PyInt 600, PyText ''FRESH'', V])
   \<and> is_entry (PyTuple [PyInt 600, PyText ''FRESH'', V])
   \<and> store (fst (get env_accepting job_V_lazy [] [] world_0)) ''app.jobs.J''
     = Some (PyTuple [PyInt 60, PyNone, PyText ''QUEUED''])
   \<and> \<not> is_entry (PyTuple [PyInt 60, PyNone, PyText ''QUEUED''])"
proof -
  have a: "store (fst (get env_accepting job_V [] [] world_0)) ''app.jobs.J''
     = Some (PyTuple [PyInt 600, PyText ''FRESH'', V])"
    using get_miss_sync [of env_accepting job_V "[]" "[]" "''app.jobs.J''" world_0 V]
    by (simp add: key_job_V cache_get_def world_0_simps job_V_simps env_simps)
  have b: "store (fst (get env_accepting job_V_lazy [] [] world_0)) ''app.jobs.J''
     = Some (PyTuple [PyInt 60, PyNone, PyText ''QUEUED''])"
    using get_miss_async [of env_accepting job_V_lazy "[]" "[]" "''app.jobs.J''" world_0]
    by (simp add: key_job_V_lazy cache_get_def world_0_simps job_V_lazy_simps env_simps
          async_refresh_accepted accepting)
  show ?thesis by (simp add: a b is_status_def)
qed

end
